theory Spec2Isabelle
  imports Complex_Main "HOL-Library.Word"
begin

unbundle bit_operations_syntax

section \<open>JavaScript strings and values\<close>

text \<open>
  A JavaScript string is a sequence of UTF-16 code units; a code unit is modelled by its
  number. \<open>js\<close> embeds an ASCII literal of the source.
\<close>

type_synonym jsstring = "nat list"

definition js :: "string \<Rightarrow> jsstring" where
  "js s = map of_char s"

text \<open>The class \<open>\s\<close> of a regular expression, which is also what \<open>trim\<close> removes:
  the white space and line terminator code points of ECMA-262.\<close>

definition isWhiteSpace :: "nat \<Rightarrow> bool" where
  "isWhiteSpace c \<longleftrightarrow>
     c = 9 \<or> c = 10 \<or> c = 11 \<or> c = 12 \<or> c = 13 \<or> c = 32 \<or> c = 160 \<or> c = 5760 \<or>
     (8192 \<le> c \<and> c \<le> 8202) \<or> c = 8232 \<or> c = 8233 \<or> c = 8239 \<or> c = 8287 \<or>
     c = 12288 \<or> c = 65279"

text \<open>The class \<open>\d\<close>.\<close>

definition isDigit :: "nat \<Rightarrow> bool" where
  "isDigit c \<longleftrightarrow> 48 \<le> c \<and> c \<le> 57"

text \<open>The class \<open>\w\<close>, which decides where \<open>\b\<close> holds.\<close>

definition isWordChar :: "nat \<Rightarrow> bool" where
  "isWordChar c \<longleftrightarrow> (97 \<le> c \<and> c \<le> 122) \<or> (65 \<le> c \<and> c \<le> 90) \<or> isDigit c \<or> c = 95"

text \<open>\<open>String.prototype.trim\<close>.\<close>

definition trim :: "jsstring \<Rightarrow> jsstring" where
  "trim s = rev (dropWhile isWhiteSpace (rev (dropWhile isWhiteSpace s)))"

text \<open>\<open>s.replace(/\s+/g, sep)\<close>: every maximal run of white space becomes \<open>sep\<close>.
  The flag tells that the previous code unit was white space.\<close>

fun replace_ws_run :: "jsstring \<Rightarrow> bool \<Rightarrow> jsstring \<Rightarrow> jsstring" where
  "replace_ws_run sep inrun [] = []"
| "replace_ws_run sep inrun (c # cs) =
     (if isWhiteSpace c
      then (if inrun then replace_ws_run sep True cs else sep @ replace_ws_run sep True cs)
      else c # replace_ws_run sep False cs)"

definition replace_ws :: "jsstring \<Rightarrow> jsstring \<Rightarrow> jsstring" where
  "replace_ws sep s = replace_ws_run sep False s"

text \<open>
  \<open>String.prototype.toLowerCase\<close>. It is exact on ASCII and on the two other code units
  whose image holds an ASCII letter (the Kelvin sign and the dotted capital I). Every other
  code unit is left in place: its real image is, like itself, outside ASCII, and the only
  caller rejects any candidate that holds a code unit outside \<open>[a-z_-]\<close>.
\<close>

definition lower_unit :: "nat \<Rightarrow> jsstring" where
  "lower_unit c =
     (if 65 \<le> c \<and> c \<le> 90 then [c + 32]
      else if c = 8490 then [107]
      else if c = 304 then [105, 775]
      else [c])"

definition toLowerCase :: "jsstring \<Rightarrow> jsstring" where
  "toLowerCase s = concat (map lower_unit s)"

text \<open>\<open>s.includes(pat)\<close>.\<close>

definition startsWith :: "jsstring \<Rightarrow> jsstring \<Rightarrow> bool" where
  "startsWith s pat \<longleftrightarrow> take (length pat) s = pat"

fun includes_str :: "jsstring \<Rightarrow> jsstring \<Rightarrow> bool" where
  "includes_str [] pat = (pat = [])"
| "includes_str (c # cs) pat = (startsWith (c # cs) pat \<or> includes_str cs pat)"

text \<open>Decimal digits of a natural number, as \<open>String(n)\<close> prints them.\<close>

fun decimal :: "nat \<Rightarrow> jsstring" where
  "decimal n = (if n < 10 then [48 + n] else decimal (n div 10) @ [48 + n mod 10])"

declare decimal.simps [simp del]

text \<open>\<open>s.padStart(k, "0")\<close>.\<close>

definition padStart0 :: "nat \<Rightarrow> jsstring \<Rightarrow> jsstring" where
  "padStart0 k s = replicate (k - length s) 48 @ s"

subsection \<open>Numbers\<close>

text \<open>
  A number is NaN, an infinity or a finite value. The finite values are taken among the
  rationals, which hold every finite double; \<open>-0\<close> is not told from \<open>0\<close>.
\<close>

datatype jsnum = NaN | PosInfinity | NegInfinity | Fin rat

subsection \<open>Values received from the engine\<close>

text \<open>
  The values of JSON, and \<open>undefined\<close> for what a missing property reads. An object is the
  list of its own properties.
\<close>

datatype jsvalue =
    JUndefined
  | JNull
  | JBool bool
  | JNum jsnum
  | JStr jsstring
  | JArr "jsvalue list"
  | JObj "(jsstring \<times> jsvalue) list"

text \<open>\<open>payload?.key\<close>, for the keys the adapter reads: none of them is a property of a
  primitive's or an array's prototype, so only an object's own property is found.\<close>

fun get_prop :: "jsvalue \<Rightarrow> jsstring \<Rightarrow> jsvalue" where
  "get_prop (JObj kvs) k = (case map_of kvs k of Some v \<Rightarrow> v | None \<Rightarrow> JUndefined)"
| "get_prop _ k = JUndefined"

text \<open>\<open>Boolean(v)\<close>.\<close>

fun truthy :: "jsvalue \<Rightarrow> bool" where
  "truthy JUndefined = False"
| "truthy JNull = False"
| "truthy (JBool b) = b"
| "truthy (JNum n) = (n \<noteq> NaN \<and> n \<noteq> Fin 0)"
| "truthy (JStr s) = (s \<noteq> [])"
| "truthy (JArr xs) = True"
| "truthy (JObj kvs) = True"

text \<open>What the host supplies and the source does not fix: the reading of a numeric string,
  the printing of a number, and \<open>Date.parse\<close> (milliseconds since the epoch, \<open>None\<close> for
  NaN), which is implementation-defined outside the ISO format.\<close>

record platform =
  StringToNumber :: "jsstring \<Rightarrow> jsnum"
  NumberToString :: "jsnum \<Rightarrow> jsstring"
  DateParse :: "jsstring \<Rightarrow> int option"

datatype error =
    TypeError
  | RangeError
  | EngineAdapterError jsstring

text \<open>\<open>String(v)\<close> on a value of JSON. An object that has an own property \<open>toString\<close>
  (never callable in JSON) cannot be converted to a primitive.\<close>

definition intercalate :: "jsstring \<Rightarrow> jsstring list \<Rightarrow> jsstring" where
  "intercalate sep ss = (case ss of [] \<Rightarrow> [] | s # rest \<Rightarrow> s @ concat (map (\<lambda>t. sep @ t) rest))"

fun ToString :: "platform \<Rightarrow> jsvalue \<Rightarrow> error + jsstring"
  and join_elements :: "platform \<Rightarrow> jsvalue list \<Rightarrow> error + jsstring list" where
  "ToString P JUndefined = Inr (js ''undefined'')"
| "ToString P JNull = Inr (js ''null'')"
| "ToString P (JBool b) = Inr (if b then js ''true'' else js ''false'')"
| "ToString P (JNum n) = Inr (NumberToString P n)"
| "ToString P (JStr s) = Inr s"
| "ToString P (JArr xs) =
     (case join_elements P xs of Inl e \<Rightarrow> Inl e | Inr ss \<Rightarrow> Inr (intercalate (js '','') ss))"
| "ToString P (JObj kvs) =
     (if js ''toString'' \<in> set (map fst kvs) then Inl TypeError else Inr (js ''[object Object]''))"
| "join_elements P [] = Inr []"
| "join_elements P (x # xs) =
     (case (if x = JUndefined \<or> x = JNull then Inr [] else ToString P x) of
        Inl e \<Rightarrow> Inl e
      | Inr s \<Rightarrow> (case join_elements P xs of Inl e \<Rightarrow> Inl e | Inr ss \<Rightarrow> Inr (s # ss)))"

text \<open>\<open>Number(v)\<close>.\<close>

fun ToNumber :: "platform \<Rightarrow> jsvalue \<Rightarrow> error + jsnum" where
  "ToNumber P JUndefined = Inr NaN"
| "ToNumber P JNull = Inr (Fin 0)"
| "ToNumber P (JBool b) = Inr (Fin (if b then 1 else 0))"
| "ToNumber P (JNum n) = Inr n"
| "ToNumber P (JStr s) = Inr (StringToNumber P s)"
| "ToNumber P (JArr xs) =
     (case ToString P (JArr xs) of Inl e \<Rightarrow> Inl e | Inr s \<Rightarrow> Inr (StringToNumber P s))"
| "ToNumber P (JObj kvs) =
     (if js ''toString'' \<in> set (map fst kvs) then Inl TypeError else Inr NaN)"

section \<open>The sanitizer\<close>

definition DEFAULT_SLOTS :: "jsstring list" where
  "DEFAULT_SLOTS = [js ''page-a'', js ''page-b'', js ''page-c'']"

text \<open>
  \<open>RESTRICTED_TEXT_PATTERN\<close> is
  \<^verbatim>\<open>/\b(seed|rng|debug|hypothesis|belief|suspicion|credibility|confidence|likelihood|probability)\b|\d+(\.\d+)?%/i\<close>.
  Under the flag \<open>i\<close> (without \<open>u\<close>) two code units match when their canonical forms
  agree, and no code unit outside ASCII has an ASCII canonical form.
\<close>

definition RESTRICTED_TOKENS :: "jsstring list" where
  "RESTRICTED_TOKENS = map js
     [''seed'', ''rng'', ''debug'', ''hypothesis'', ''belief'', ''suspicion'',
      ''credibility'', ''confidence'', ''likelihood'', ''probability'']"

definition canonicalize :: "nat \<Rightarrow> nat" where
  "canonicalize c = (if 97 \<le> c \<and> c \<le> 122 then c - 32 else c)"

text \<open>A token is read at the head of \<open>s\<close> and \<open>\b\<close> holds after it.\<close>

definition token_at :: "jsstring \<Rightarrow> jsstring \<Rightarrow> bool" where
  "token_at tok s \<longleftrightarrow>
     length tok \<le> length s \<and>
     map canonicalize (take (length tok) s) = map canonicalize tok \<and>
     (case drop (length tok) s of [] \<Rightarrow> True | c # _ \<Rightarrow> \<not> isWordChar c)"

text \<open>\<^verbatim>\<open>\d+(\.\d+)?%\<close> is read at the head of \<open>s\<close>. A run of digits that stops short is
  followed by a digit, so only the whole run can be followed by the rest of the pattern.\<close>

definition percent_at :: "jsstring \<Rightarrow> bool" where
  "percent_at s \<longleftrightarrow>
     takeWhile isDigit s \<noteq> [] \<and>
     (case dropWhile isDigit s of
        [] \<Rightarrow> False
      | c # r \<Rightarrow>
          c = 37 \<or>
          (c = 46 \<and> takeWhile isDigit r \<noteq> [] \<and>
           (case dropWhile isDigit r of [] \<Rightarrow> False | c' # _ \<Rightarrow> c' = 37)))"

text \<open>The search over the start positions; \<open>prev\<close> tells that the code unit before the
  position is a word character, in which case \<open>\b\<close> fails before a token.\<close>

fun pattern_scan :: "bool \<Rightarrow> jsstring \<Rightarrow> bool" where
  "pattern_scan prev [] = False"
| "pattern_scan prev (c # cs) =
     ((\<not> prev \<and> list_ex (\<lambda>tok. token_at tok (c # cs)) RESTRICTED_TOKENS) \<or>
      percent_at (c # cs) \<or>
      pattern_scan (isWordChar c) cs)"

definition RESTRICTED_TEXT_PATTERN_test :: "jsstring \<Rightarrow> bool" where
  "RESTRICTED_TEXT_PATTERN_test s = pattern_scan False s"

definition RESTRICTED_MARKER :: jsstring where
  "RESTRICTED_MARKER = js ''Restricted in visible state.''"

definition normalize_ws :: "jsstring \<Rightarrow> jsstring" where
  "normalize_ws s = replace_ws (js '' '') (trim s)"

definition clampText :: "jsvalue \<Rightarrow> jsstring \<Rightarrow> nat \<Rightarrow> bool \<Rightarrow> jsstring" where
  "clampText v fallback limit redactRestricted =
     (case v of
        JStr s \<Rightarrow>
          (let normalized = normalize_ws s in
           if normalized = [] then fallback
           else if redactRestricted \<and> RESTRICTED_TEXT_PATTERN_test normalized
             then RESTRICTED_MARKER
           else take limit normalized)
      | _ \<Rightarrow> fallback)"

text \<open>\<^verbatim>\<open>/^[a-z_-]+$/\<close>.\<close>

definition descriptor_shape :: "jsstring \<Rightarrow> bool" where
  "descriptor_shape s \<longleftrightarrow> s \<noteq> [] \<and> list_all (\<lambda>c. (97 \<le> c \<and> c \<le> 122) \<or> c = 95 \<or> c = 45) s"

definition descriptor_candidate :: "jsvalue \<Rightarrow> jsstring \<Rightarrow> jsstring" where
  "descriptor_candidate v fallback =
     replace_ws (js ''_'') (toLowerCase (clampText v fallback 64 False))"

definition sanitizeDescriptor :: "jsvalue \<Rightarrow> jsstring \<Rightarrow> jsstring" where
  "sanitizeDescriptor v fallback =
     (let candidate = descriptor_candidate v fallback in
      if list_ex isDigit candidate then fallback
      else if includes_str candidate (js ''seed'') \<or> includes_str candidate (js ''rng'') \<or>
              includes_str candidate (js ''debug'') \<or> includes_str candidate (js ''belief'') \<or>
              includes_str candidate (js ''hypothesis'')
        then fallback
      else if \<not> descriptor_shape candidate then fallback
      else candidate)"

definition STATUS_TERMS :: "jsstring list" where
  "STATUS_TERMS = map js [''active'', ''contained'', ''paused'', ''cold'', ''closed'']"

definition EVIDENCE_STATES :: "jsstring list" where
  "EVIDENCE_STATES = map js [''surfaced'', ''logged'', ''review'', ''suppressed'', ''archived'']"

datatype PressureLabel =
    Low | Moderate | Elevated | High | Critical
  | Uncertain | Probable | Contradictory | Stable | Fragile

fun label_name :: "PressureLabel \<Rightarrow> jsstring" where
  "label_name Low = js ''low''"
| "label_name Moderate = js ''moderate''"
| "label_name Elevated = js ''elevated''"
| "label_name High = js ''high''"
| "label_name Critical = js ''critical''"
| "label_name Uncertain = js ''uncertain''"
| "label_name Probable = js ''probable''"
| "label_name Contradictory = js ''contradictory''"
| "label_name Stable = js ''stable''"
| "label_name Fragile = js ''fragile''"

definition QUALITATIVE_TERMS :: "PressureLabel list" where
  "QUALITATIVE_TERMS =
     [Low, Moderate, Elevated, High, Critical, Uncertain, Probable, Contradictory, Stable, Fragile]"

record EvidenceItem =
  e_id :: jsstring
  e_label :: jsstring
  e_category :: jsstring
  e_state :: jsstring
  e_summary :: jsstring

record TimelineItem =
  t_time :: jsstring
  t_label :: jsstring
  t_details :: jsstring

record InvestigatorSignals =
  priority :: jsstring
  demeanour :: jsstring
  recent_shift :: jsstring

record PressureState =
  public :: PressureLabel
  institutional :: PressureLabel
  personal :: PressureLabel

text \<open>\<open>turn\<close> is a non-negative integer in every state the adapter builds.\<close>

record VisibleState =
  case_id :: jsstring
  crime_type :: jsstring
  turn :: nat
  status :: jsstring
  evidence :: "EvidenceItem list"
  timeline :: "TimelineItem list"
  investigator_signals :: InvestigatorSignals
  pressure :: PressureState

record ActionOption =
  a_id :: jsstring
  a_label :: jsstring
  a_enabled :: bool
  a_cost :: "jsstring option"
  a_desc :: jsstring
  a_disabled_reason :: "jsstring option"

record ActionResult =
  success :: bool
  summary :: jsstring

record ApplyActionResponse =
  visible_state :: VisibleState
  action_result :: ActionResult

definition sanitizeStatus :: "jsvalue \<Rightarrow> jsstring" where
  "sanitizeStatus v =
     (let status = sanitizeDescriptor v (js ''active'')
      in if status \<in> set STATUS_TERMS then status else js ''active'')"

definition sanitizePressure :: "jsvalue \<Rightarrow> PressureLabel" where
  "sanitizePressure v =
     (let pressure = sanitizeDescriptor v (js ''uncertain'')
      in case find (\<lambda>l. label_name l = pressure) QUALITATIVE_TERMS of
           Some l \<Rightarrow> l
         | None \<Rightarrow> Uncertain)"

subsection \<open>Dates\<close>

text \<open>
  The time value of a \<open>Date\<close> is a number of milliseconds since the epoch, or NaN
  (\<open>None\<close>). The functions below are those of ECMA-262: \<open>MakeDay\<close>, \<open>MakeTime\<close>,
  \<open>MakeDate\<close>, \<open>TimeClip\<close>, \<open>Date.UTC\<close> and \<open>toISOString\<close>, in the proleptic Gregorian
  calendar.
\<close>

definition days_from_civil :: "int \<Rightarrow> int \<Rightarrow> int \<Rightarrow> int" where
  "days_from_civil y m d =
     (let y' = (if m \<le> 2 then y - 1 else y);
          era = y' div 400;
          yoe = y' mod 400;
          mp = (m + 9) mod 12;
          doy = (153 * mp + 2) div 5 + d - 1;
          doe = yoe * 365 + yoe div 4 - yoe div 100 + doy
      in era * 146097 + doe - 719468)"

definition civil_from_days :: "int \<Rightarrow> int \<times> int \<times> int" where
  "civil_from_days z0 =
     (let z = z0 + 719468;
          era = z div 146097;
          doe = z mod 146097;
          yoe = (doe - doe div 1460 + doe div 36524 - doe div 146096) div 365;
          doy = doe - (365 * yoe + yoe div 4 - yoe div 100);
          mp = (5 * doy + 2) div 153;
          d = doy - (153 * mp + 2) div 5 + 1;
          m = (if mp < 10 then mp + 3 else mp - 9);
          y = yoe + era * 400
      in (if m \<le> 2 then y + 1 else y, m, d))"

definition MakeDay :: "int \<Rightarrow> int \<Rightarrow> int \<Rightarrow> int" where
  "MakeDay year month date =
     days_from_civil (year + month div 12) (month mod 12 + 1) 1 + date - 1"

definition MakeTime :: "int \<Rightarrow> int \<Rightarrow> int \<Rightarrow> int \<Rightarrow> int" where
  "MakeTime hour minute sec ms = hour * 3600000 + minute * 60000 + sec * 1000 + ms"

definition MakeDate :: "int \<Rightarrow> int \<Rightarrow> int" where
  "MakeDate day time = day * 86400000 + time"

definition TimeClip :: "int \<Rightarrow> int option" where
  "TimeClip t = (if \<bar>t\<bar> > 8640000000000000 then None else Some t)"

definition Date_UTC :: "int \<Rightarrow> int \<Rightarrow> int \<Rightarrow> int \<Rightarrow> int \<Rightarrow> int \<Rightarrow> int option" where
  "Date_UTC year month date hours minutes seconds =
     (let yr = (if 0 \<le> year \<and> year \<le> 99 then 1900 + year else year)
      in TimeClip (MakeDate (MakeDay yr month date) (MakeTime hours minutes seconds 0)))"

definition pad_int :: "nat \<Rightarrow> int \<Rightarrow> jsstring" where
  "pad_int k n = padStart0 k (decimal (nat n))"

definition iso_year :: "int \<Rightarrow> jsstring" where
  "iso_year y =
     (if 0 \<le> y \<and> y \<le> 9999 then pad_int 4 y
      else (if y < 0 then js ''-'' else js ''+'') @ pad_int 6 \<bar>y\<bar>)"

definition iso_format :: "int \<Rightarrow> jsstring" where
  "iso_format t =
     (let day = t div 86400000;
          r = t mod 86400000;
          (y, m, d) = civil_from_days day
      in iso_year y @ js ''-'' @ pad_int 2 m @ js ''-'' @ pad_int 2 d @ js ''T'' @
         pad_int 2 (r div 3600000) @ js '':'' @ pad_int 2 (r div 60000 mod 60) @ js '':'' @
         pad_int 2 (r div 1000 mod 60) @ js ''.'' @ pad_int 3 (r mod 1000) @ js ''Z'')"

text \<open>\<open>toISOString\<close> raises a RangeError on an invalid date.\<close>

definition toISOString :: "int option \<Rightarrow> error + jsstring" where
  "toISOString date = (case date of None \<Rightarrow> Inl RangeError | Some t \<Rightarrow> Inr (iso_format t))"

text \<open>\<open>new Date(text)\<close> for a string: the host's parse, clipped.\<close>

definition new_Date :: "platform \<Rightarrow> jsstring \<Rightarrow> int option" where
  "new_Date P text = (case DateParse P text of None \<Rightarrow> None | Some t \<Rightarrow> TimeClip t)"

text \<open>The instant \<open>Date.UTC(2026, 1, 1, 0, 0, 0)\<close>, which \<open>sanitizeIsoTime\<close> substitutes;
  it is a valid date, so that \<open>toISOString\<close> returns there.\<close>

definition FIXED_EPOCH :: int where
  "FIXED_EPOCH = 1769904000000"

definition sanitizeIsoTime :: "platform \<Rightarrow> jsvalue \<Rightarrow> jsstring" where
  "sanitizeIsoTime P v =
     (let text = clampText v [] 48 False in
      if text = [] then iso_format FIXED_EPOCH
      else (case new_Date P text of
              None \<Rightarrow> iso_format FIXED_EPOCH
            | Some t \<Rightarrow> iso_format t))"

definition sanitizeEvidence :: "jsvalue \<Rightarrow> nat \<Rightarrow> EvidenceItem" where
  "sanitizeEvidence item index =
     (let state = sanitizeDescriptor (get_prop item (js ''state'')) (js ''logged'') in
      \<lparr> e_id = clampText (get_prop item (js ''id'')) (js ''e'' @ decimal (index + 1)) 32 False,
        e_label = clampText (get_prop item (js ''label''))
                    (js ''Evidence '' @ decimal (index + 1)) 70 False,
        e_category = sanitizeDescriptor (get_prop item (js ''category'')) (js ''general''),
        e_state = (if state \<in> set EVIDENCE_STATES then state else js ''logged''),
        e_summary = clampText (get_prop item (js ''summary''))
                      (js ''No summary available.'') 220 True \<rparr>)"

definition sanitizeTimeline :: "platform \<Rightarrow> jsvalue \<Rightarrow> nat \<Rightarrow> TimelineItem" where
  "sanitizeTimeline P item index =
     \<lparr> t_time = sanitizeIsoTime P (get_prop item (js ''time'')),
       t_label = clampText (get_prop item (js ''label''))
                   (js ''event_'' @ decimal (index + 1)) 60 False,
       t_details = clampText (get_prop item (js ''details''))
                     (js ''No details provided.'') 240 True \<rparr>"

text \<open>\<open>Array.isArray(v) ? v : []\<close>.\<close>

fun array_or_empty :: "jsvalue \<Rightarrow> jsvalue list" where
  "array_or_empty (JArr xs) = xs"
| "array_or_empty _ = []"

text \<open>\<open>v ?? {}\<close>.\<close>

fun or_empty_object :: "jsvalue \<Rightarrow> jsvalue" where
  "or_empty_object JUndefined = JObj []"
| "or_empty_object JNull = JObj []"
| "or_empty_object v = v"

text \<open>\<open>xs.map((item, index) => f(item, index))\<close>.\<close>

definition map_index :: "('a \<Rightarrow> nat \<Rightarrow> 'b) \<Rightarrow> 'a list \<Rightarrow> 'b list" where
  "map_index f xs = map (\<lambda>(item, index). f item index) (zip xs [0 ..< length xs])"

text \<open>\<open>Number.isFinite(rawTurn) && rawTurn >= 0 ? Math.floor(rawTurn) : 0\<close>.\<close>

fun floor_turn :: "jsnum \<Rightarrow> nat" where
  "floor_turn (Fin r) = (if r \<ge> 0 then nat \<lfloor>r\<rfloor> else 0)"
| "floor_turn _ = 0"

text \<open>Only \<open>Number(payload?.turn)\<close> can raise.\<close>

definition sanitizeVisibleState :: "platform \<Rightarrow> jsvalue \<Rightarrow> error + VisibleState" where
  "sanitizeVisibleState P input =
     (let evidenceSource = array_or_empty (get_prop input (js ''evidence''));
          timelineSource = array_or_empty (get_prop input (js ''timeline''));
          signals = or_empty_object (get_prop input (js ''investigator_signals''));
          pressure = or_empty_object (get_prop input (js ''pressure''))
      in case ToNumber P (get_prop input (js ''turn'')) of
           Inl e \<Rightarrow> Inl e
         | Inr rawTurn \<Rightarrow>
             Inr \<lparr> case_id = clampText (get_prop input (js ''case_id'')) (js ''case_001'') 40 False,
                   crime_type = sanitizeDescriptor (get_prop input (js ''crime_type'')) (js ''unknown''),
                   turn = floor_turn rawTurn,
                   status = sanitizeStatus (get_prop input (js ''status'')),
                   evidence = map_index sanitizeEvidence evidenceSource,
                   timeline = map_index (sanitizeTimeline P) timelineSource,
                   investigator_signals =
                     \<lparr> priority = sanitizeDescriptor (get_prop signals (js ''priority'')) (js ''uncertain''),
                       demeanour = sanitizeDescriptor (get_prop signals (js ''demeanour'')) (js ''uncertain''),
                       recent_shift =
                         sanitizeDescriptor (get_prop signals (js ''recent_shift'')) (js ''uncertain'') \<rparr>,
                   pressure =
                     \<lparr> public = sanitizePressure (get_prop pressure (js ''public'')),
                       institutional = sanitizePressure (get_prop pressure (js ''institutional'')),
                       personal = sanitizePressure (get_prop pressure (js ''personal'')) \<rparr> \<rparr>)"

definition sanitizeAction :: "jsvalue \<Rightarrow> nat \<Rightarrow> ActionOption" where
  "sanitizeAction item index =
     (let enabled = truthy (get_prop item (js ''enabled''));
          disabledReason =
            (if enabled then None
             else Some (clampText (get_prop item (js ''disabled_reason''))
                          (js ''Unavailable this turn due to current case conditions.'') 120 True))
      in \<lparr> a_id = clampText (get_prop item (js ''id'')) (js ''action_'' @ decimal (index + 1)) 64 False,
           a_label = clampText (get_prop item (js ''label''))
                       (js ''Action '' @ decimal (index + 1)) 80 False,
           a_enabled = enabled,
           a_cost = (case get_prop item (js ''cost'') of
                       JStr s \<Rightarrow> Some (clampText (JStr s) [] 20 False)
                     | _ \<Rightarrow> None),
           a_desc = clampText (get_prop item (js ''desc''))
                      (js ''No description available.'') 200 True,
           a_disabled_reason = disabledReason \<rparr>)"

definition sanitizeActionsResponse :: "jsvalue \<Rightarrow> ActionOption list" where
  "sanitizeActionsResponse input =
     map_index sanitizeAction (array_or_empty (get_prop input (js ''actions'')))"

definition sanitizeActionResult :: "jsvalue \<Rightarrow> ActionResult" where
  "sanitizeActionResult input =
     \<lparr> success = truthy (get_prop input (js ''success'')),
       summary = clampText (get_prop input (js ''summary'')) (js ''Action completed.'') 220 True \<rparr>"

section \<open>The mock engine\<close>

text \<open>\<open>structuredClone\<close> copies a value; values are immutable here, so a copy is the
  value itself and no two of them share storage.\<close>

definition deepClone :: "'a \<Rightarrow> 'a" where
  "deepClone v = v"

subsection \<open>The generator\<close>

text \<open>\<open>seed >>> 0\<close> on an integer.\<close>

definition ToUint32 :: "int \<Rightarrow> int" where
  "ToUint32 n = n mod 4294967296"

definition imul :: "32 word \<Rightarrow> 32 word \<Rightarrow> 32 word" where
  "imul a b = a * b"

text \<open>
  One call of the closure that \<open>createMulberry32\<close> returns. The captured \<open>value\<close> is a
  number that grows by \<open>0x6d2b79f5\<close> at each call and is never reduced; it is exact as
  long as it stays below \<open>2^53\<close>, far more calls than the ten of \<open>createInitialMockState\<close>.
  The bitwise operators read it modulo \<open>2^32\<close>. The result is the numerator of the
  returned fraction over \<open>4294967296\<close>.
\<close>

definition mulberry32_next :: "int \<Rightarrow> int \<times> 32 word" where
  "mulberry32_next v0 =
     (let v1 = v0 + 1831565813;
          w = (word_of_int v1 :: 32 word);
          temp = imul (w XOR drop_bit 15 w) (w OR 1);
          temp' = temp XOR (temp + imul (temp XOR drop_bit 7 temp) (temp OR 61))
      in (v1, temp' XOR drop_bit 14 temp'))"

text \<open>\<open>items[Math.floor(rng() * items.length)]\<close>, for the fraction \<open>r / 2^32\<close>.\<close>

definition pickFrom :: "'a list \<Rightarrow> 32 word \<Rightarrow> 'a" where
  "pickFrom items r = items ! nat (uint r * int (length items) div 4294967296)"

subsection \<open>Pressure\<close>

text \<open>\<open>findIndex\<close> and \<open>indexOf\<close>, which give \<open>-1\<close> when nothing is found.\<close>

fun findIndex :: "('a \<Rightarrow> bool) \<Rightarrow> 'a list \<Rightarrow> int" where
  "findIndex p [] = -1"
| "findIndex p (x # xs) =
     (if p x then 0 else (let i = findIndex p xs in if i < 0 then -1 else i + 1))"

definition indexOf :: "'a list \<Rightarrow> 'a \<Rightarrow> int" where
  "indexOf xs x = findIndex (\<lambda>y. y = x) xs"

definition scale :: "PressureLabel list" where
  "scale = [Low, Moderate, Elevated, High, Critical]"

definition shiftPressure :: "PressureLabel \<Rightarrow> int \<Rightarrow> PressureLabel" where
  "shiftPressure current delta =
     (let index = indexOf scale current in
      if index < 0 then Uncertain
      else (let next = max 0 (min (int (length scale) - 1) (index + delta))
            in scale ! nat next))"

subsection \<open>The initial state\<close>

text \<open>The remainder \<open>%\<close> takes the sign of the dividend.\<close>

definition js_rem :: "int \<Rightarrow> int \<Rightarrow> int" where
  "js_rem a b = sgn a * (\<bar>a\<bar> mod \<bar>b\<bar>)"

definition String_int :: "int \<Rightarrow> jsstring" where
  "String_int n = (if n < 0 then js ''-'' @ decimal (nat (- n)) else decimal (nat n))"

definition createInitialMockState :: "int \<Rightarrow> VisibleState" where
  "createInitialMockState seed =
     (let (v1, r1) = mulberry32_next (ToUint32 seed);
          crimeType = pickFrom (map js [''murder'', ''fraud'', ''arson'', ''kidnapping'']) r1;
          caseId = js ''case_'' @ padStart0 3 (String_int (js_rem seed 900 + 100));
          (v2, r2) = mulberry32_next v1;
          (v3, r3) = mulberry32_next v2;
          evidence =
            [ \<lparr> e_id = js ''e1'', e_label = js ''CCTV Clip'', e_category = js ''digital'',
                e_state = js ''surfaced'',
                e_summary = js ''Partial frame captured; vehicle profile remains uncertain.'' \<rparr>,
              \<lparr> e_id = js ''e2'', e_label = js ''Station Ledger'', e_category = js ''document'',
                e_state = (if uint r2 > 2147483648 then js ''surfaced'' else js ''logged''),
                e_summary = js ''Entry sequence has one contradictory time-stamp.'' \<rparr>,
              \<lparr> e_id = js ''e3'', e_label = js ''Lab Swab'', e_category = js ''forensic'',
                e_state = js ''review'',
                e_summary = js ''Residue profile linked to probable transfer contact.'' \<rparr>,
              \<lparr> e_id = js ''e4'', e_label = js ''Witness Call'', e_category = js ''witness'',
                e_state = (if uint r3 > 2147483648 then js ''logged'' else js ''review''),
                e_summary = js ''Caller timeline is probable but partially contradictory.'' \<rparr> ];
          timeline =
            [ \<lparr> t_time = js ''2026-02-01T20:40:00.000Z'', t_label = js ''incident'',
                t_details = js ''Incident logged by control room.'' \<rparr>,
              \<lparr> t_time = js ''2026-02-01T21:15:00.000Z'', t_label = js ''first_response'',
                t_details = js ''Initial perimeter established.'' \<rparr>,
              \<lparr> t_time = js ''2026-02-01T22:00:00.000Z'', t_label = js ''evidence_intake'',
                t_details = js ''Initial digital and physical evidence intake completed.'' \<rparr> ];
          (v4, r4) = mulberry32_next v3;
          (v5, r5) = mulberry32_next v4;
          (v6, r6) = mulberry32_next v5;
          (v7, r7) = mulberry32_next v6;
          (v8, r8) = mulberry32_next v7;
          (v9, r9) = mulberry32_next v8;
          (v10, r10) = mulberry32_next v9
      in \<lparr> case_id = caseId,
           crime_type = crimeType,
           turn = 1 + nat (uint r4 * 3 div 4294967296),
           status = js ''active'',
           evidence = evidence,
           timeline = timeline,
           investigator_signals =
             \<lparr> priority =
                 pickFrom (map js [''forensics'', ''interviews'', ''financial'', ''surveillance'']) r5,
               demeanour =
                 pickFrom (map js [''controlled'', ''impatient'', ''guarded'', ''methodical'']) r6,
               recent_shift =
                 pickFrom (map js [''attention_narrowing'', ''scope_balancing'', ''risk_avoidance'']) r7 \<rparr>,
           pressure =
             \<lparr> public = pickFrom [Low, Moderate, Elevated] r8,
               institutional = pickFrom [Low, Moderate] r9,
               personal = pickFrom [Moderate, Elevated] r10 \<rparr> \<rparr>)"

subsection \<open>Actions\<close>

definition buildMockActions :: "VisibleState \<Rightarrow> ActionOption list" where
  "buildMockActions state =
     (let surfacedCount = length (filter (\<lambda>item. e_state item = js ''surfaced'') (evidence state));
          hasSuppressed = list_ex (\<lambda>item. e_state item = js ''suppressed'') (evidence state);
          canDelay = (public (pressure state) \<noteq> Critical)
      in [ \<lparr> a_id = js ''remove_evidence'', a_label = js ''Remove Evidence'',
             a_enabled = (surfacedCount > 0), a_cost = Some (163 # js ''200''),
             a_desc = js ''Move one surfaced item into restricted review.'',
             a_disabled_reason =
               (if surfacedCount > 0 then None
                else Some (js ''No surfaced evidence is available to remove.'')) \<rparr>,
           \<lparr> a_id = js ''delay_briefing'', a_label = js ''Delay Briefing'',
             a_enabled = canDelay, a_cost = Some (163 # js ''0''),
             a_desc = js ''Delay the official briefing by one turn.'',
             a_disabled_reason =
               (if canDelay then None
                else Some (js ''Public pressure is too high to delay briefing.'')) \<rparr>,
           \<lparr> a_id = js ''reframe_priority'', a_label = js ''Reframe Priority'',
             a_enabled = True, a_cost = Some (163 # js ''0''),
             a_desc = js ''Cycle investigator focus to the next discipline.'',
             a_disabled_reason = None \<rparr>,
           \<lparr> a_id = js ''seal_archive'', a_label = js ''Seal Archive'',
             a_enabled = hasSuppressed, a_cost = Some (163 # js ''120''),
             a_desc = js ''Seal one suppressed record into archive storage.'',
             a_disabled_reason =
               (if hasSuppressed then None
                else Some (js ''At least one suppressed item is needed before sealing archive.'')) \<rparr> ])"

text \<open>\<open>xs.slice(-12)\<close>.\<close>

definition slice_last12 :: "'a list \<Rightarrow> 'a list" where
  "slice_last12 xs = drop (length xs - 12) xs"

text \<open>\<open>appendTimeline\<close> raises when the synthesized instant is not a valid date.\<close>

definition appendTimeline :: "VisibleState \<Rightarrow> jsstring \<Rightarrow> jsstring \<Rightarrow> error + TimelineItem list" where
  "appendTimeline state label details =
     (case toISOString (Date_UTC 2026 1 1 (20 + int (turn state)) 10 0) of
        Inl e \<Rightarrow> Inl e
      | Inr eventTime \<Rightarrow>
          Inr (slice_last12
                 (timeline state @ [\<lparr> t_time = eventTime, t_label = label, t_details = details \<rparr>])))"

definition failed :: "VisibleState \<Rightarrow> jsstring \<Rightarrow> error + ApplyActionResponse" where
  "failed next text =
     Inr \<lparr> visible_state = next, action_result = \<lparr> success = False, summary = text \<rparr> \<rparr>"

definition succeeded ::
  "VisibleState \<Rightarrow> error + TimelineItem list \<Rightarrow> jsstring \<Rightarrow> error + ApplyActionResponse" where
  "succeeded next appended text =
     (case appended of
        Inl e \<Rightarrow> Inl e
      | Inr entries \<Rightarrow>
          Inr \<lparr> visible_state = next\<lparr>timeline := entries\<rparr>,
                action_result = \<lparr> success = True, summary = text \<rparr> \<rparr>)"

definition priorities :: "jsstring list" where
  "priorities = map js [''forensics'', ''interviews'', ''financial'', ''surveillance'']"

definition applyMockAction :: "VisibleState \<Rightarrow> jsstring \<Rightarrow> error + ApplyActionResponse" where
  "applyMockAction state actionId =
     (let next = deepClone state in
      if actionId = js ''remove_evidence'' then
        (let targetIndex = findIndex (\<lambda>item. e_state item = js ''surfaced'') (evidence next) in
         if targetIndex < 0 then failed next (js ''No surfaced evidence could be moved.'')
         else
           (let next1 = next\<lparr>turn := turn next + 1\<rparr>;
                next2 = next1\<lparr>evidence := (evidence next1)
                          [nat targetIndex := (evidence next1 ! nat targetIndex)
                             \<lparr>e_state := js ''suppressed'',
                              e_summary := js ''Access restricted pending compliance review.''\<rparr>]\<rparr>;
                next3 = next2\<lparr>pressure := (pressure next2)
                          \<lparr>public := shiftPressure (public (pressure next2)) 1\<rparr>\<rparr>
            in succeeded next3
                 (appendTimeline next3 (js ''evidence_removed'')
                    (js ''One surfaced evidence item moved into restricted review.''))
                 (js ''Evidence moved to restricted review for this cycle.'')))
      else if actionId = js ''delay_briefing'' then
        (if public (pressure next) = Critical
         then failed next (js ''Briefing delay rejected under critical public pressure.'')
         else
           (let next1 = next\<lparr>turn := turn next + 1\<rparr>;
                next2 = next1\<lparr>pressure := (pressure next1)
                          \<lparr>public := shiftPressure (public (pressure next1)) (- 1)\<rparr>\<rparr>;
                next3 = next2\<lparr>pressure := (pressure next2)
                          \<lparr>institutional := shiftPressure (institutional (pressure next2)) 1\<rparr>\<rparr>
            in succeeded next3
                 (appendTimeline next3 (js ''briefing_delayed'')
                    (js ''Official briefing pushed by one operational cycle.''))
                 (js ''Briefing delayed; institutional pressure increased.'')))
      else if actionId = js ''reframe_priority'' then
        (let currentIndex = indexOf priorities (priority (investigator_signals next));
             nextIndex = (if currentIndex < 0 then 0 else (currentIndex + 1) mod int (length priorities));
             next1 = next\<lparr>turn := turn next + 1\<rparr>;
             next2 = next1\<lparr>investigator_signals := (investigator_signals next1)
                       \<lparr>priority := priorities ! nat nextIndex\<rparr>\<rparr>;
             next3 = next2\<lparr>investigator_signals := (investigator_signals next2)
                       \<lparr>recent_shift := js ''attention_realignment''\<rparr>\<rparr>
         in succeeded next3
              (appendTimeline next3 (js ''priority_reframed'')
                 (js ''Investigator priority shifted to '' @ priorities ! nat nextIndex @ js ''.''))
              (js ''Priority shifted to '' @ priorities ! nat nextIndex @ js ''.''))
      else if actionId = js ''seal_archive'' then
        (let targetIndex = findIndex (\<lambda>item. e_state item = js ''suppressed'') (evidence next) in
         if targetIndex < 0 then failed next (js ''No suppressed item available for archive sealing.'')
         else
           (let next1 = next\<lparr>turn := turn next + 1\<rparr>;
                next2 = next1\<lparr>evidence := (evidence next1)
                          [nat targetIndex := (evidence next1 ! nat targetIndex)
                             \<lparr>e_state := js ''archived'',
                              e_summary := js ''Record sealed in archive.''\<rparr>]\<rparr>;
                next3 = next2\<lparr>pressure := (pressure next2)
                          \<lparr>institutional := shiftPressure (institutional (pressure next2)) (- 1)\<rparr>\<rparr>
            in succeeded next3
                 (appendTimeline next3 (js ''archive_sealed'')
                    (js ''Suppressed record sealed in archive storage.''))
                 (js ''Archive seal completed for one restricted record.'')))
      else failed next (js ''Action not recognized by mock adapter.''))"

section \<open>The adapters\<close>

text \<open>A \<open>Map\<close> keeps its keys in insertion order; \<open>set\<close> on a key that is present
  replaces the value in place.\<close>

fun Map_set :: "('k \<times> 'v) list \<Rightarrow> 'k \<Rightarrow> 'v \<Rightarrow> ('k \<times> 'v) list" where
  "Map_set [] k v = [(k, v)]"
| "Map_set ((k', v') # kvs) k v =
     (if k' = k then (k, v) # kvs else (k', v') # Map_set kvs k v)"

definition Map_get :: "('k \<times> 'v) list \<Rightarrow> 'k \<Rightarrow> 'v option" where
  "Map_get kvs k = map_of kvs k"

definition Map_keys :: "('k \<times> 'v) list \<Rightarrow> 'k list" where
  "Map_keys kvs = map fst kvs"

text \<open>\<open>Array.from(new Set(xs))\<close>: the elements in the order of their first occurrence.\<close>

definition Set_add :: "'a list \<Rightarrow> 'a \<Rightarrow> 'a list" where
  "Set_add seen x = (if x \<in> set seen then seen else seen @ [x])"

definition Array_from_Set :: "'a list \<Rightarrow> 'a list" where
  "Array_from_Set xs = foldl Set_add [] xs"

definition unknown_slot :: "jsstring \<Rightarrow> error" where
  "unknown_slot slotId =
     EngineAdapterError (js ''No saved data for '' @ [34] @ slotId @ [34] @ js ''. Save a page first.'')"

subsection \<open>The mock adapter\<close>

text \<open>The two variables that the closures of \<open>createMockAdapter\<close> capture.\<close>

record MockAdapter =
  m_state :: VisibleState
  m_slots :: "(jsstring \<times> VisibleState) list"

definition createMockAdapter :: "int \<Rightarrow> MockAdapter" where
  "createMockAdapter seed = \<lparr> m_state = createInitialMockState seed, m_slots = [] \<rparr>"


definition mock_getActions :: "MockAdapter \<Rightarrow> ActionOption list" where
  "mock_getActions a = deepClone (buildMockActions (m_state a))"

text \<open>When \<open>applyMockAction\<close> raises, the assignment to \<open>state\<close> is not reached.\<close>

definition mock_applyAction ::
  "MockAdapter \<Rightarrow> jsstring \<Rightarrow> (error + ApplyActionResponse) \<times> MockAdapter" where
  "mock_applyAction a action_id =
     (case applyMockAction (m_state a) action_id of
        Inl e \<Rightarrow> (Inl e, a)
      | Inr response \<Rightarrow>
          (Inr (deepClone response), a\<lparr>m_state := deepClone (visible_state response)\<rparr>))"

definition mock_saveSlot :: "MockAdapter \<Rightarrow> jsstring \<Rightarrow> MockAdapter" where
  "mock_saveSlot a slotId = a\<lparr>m_slots := Map_set (m_slots a) slotId (deepClone (m_state a))\<rparr>"

definition mock_loadSlot :: "MockAdapter \<Rightarrow> jsstring \<Rightarrow> (error + VisibleState) \<times> MockAdapter" where
  "mock_loadSlot a slotId =
     (case Map_get (m_slots a) slotId of
        None \<Rightarrow> (Inl (unknown_slot slotId), a)
      | Some snapshot \<Rightarrow> (Inr (deepClone snapshot), a\<lparr>m_state := deepClone snapshot\<rparr>))"

definition mock_listSlots :: "MockAdapter \<Rightarrow> jsstring list" where
  "mock_listSlots a = Array_from_Set (DEFAULT_SLOTS @ Map_keys (m_slots a))"

subsection \<open>The live adapter\<close>

text \<open>
  \<open>fetchJson\<close> gives the decoded body of the response, or raises an
  \<open>EngineAdapterError\<close>; what it gives is an argument of the operations below.
\<close>

record LiveAdapter =
  l_current :: "VisibleState option"
  l_slots :: "(jsstring \<times> VisibleState) list"

definition createLiveAdapter :: LiveAdapter where
  "createLiveAdapter = \<lparr> l_current = None, l_slots = [] \<rparr>"

definition live_getVisibleState ::
  "platform \<Rightarrow> error + jsvalue \<Rightarrow> LiveAdapter \<Rightarrow> (error + VisibleState) \<times> LiveAdapter" where
  "live_getVisibleState P fetched a =
     (case fetched of
        Inl e \<Rightarrow> (Inl e, a)
      | Inr payload \<Rightarrow>
          (case sanitizeVisibleState P payload of
             Inl e \<Rightarrow> (Inl e, a)
           | Inr current \<Rightarrow> (Inr (deepClone current), a\<lparr>l_current := Some current\<rparr>)))"

definition live_getActions :: "error + jsvalue \<Rightarrow> error + ActionOption list" where
  "live_getActions fetched =
     (case fetched of Inl e \<Rightarrow> Inl e | Inr payload \<Rightarrow> Inr (sanitizeActionsResponse payload))"

text \<open>\<open>raw.visible_state\<close> is read without \<open>?.\<close>: it raises on \<open>null\<close>.\<close>

definition live_applyAction ::
  "platform \<Rightarrow> error + jsvalue \<Rightarrow> LiveAdapter \<Rightarrow> (error + ApplyActionResponse) \<times> LiveAdapter" where
  "live_applyAction P fetched a =
     (case fetched of
        Inl e \<Rightarrow> (Inl e, a)
      | Inr raw \<Rightarrow>
          if raw = JNull \<or> raw = JUndefined then (Inl TypeError, a)
          else
            (case sanitizeVisibleState P (get_prop raw (js ''visible_state'')) of
               Inl e \<Rightarrow> (Inl e, a)
             | Inr visibleState \<Rightarrow>
                 (let actionResult = sanitizeActionResult (get_prop raw (js ''action_result''))
                  in (Inr \<lparr> visible_state = deepClone visibleState, action_result = actionResult \<rparr>,
                      a\<lparr>l_current := Some visibleState\<rparr>))))"

definition live_saveSlot :: "LiveAdapter \<Rightarrow> jsstring \<Rightarrow> LiveAdapter" where
  "live_saveSlot a slotId =
     (case l_current a of
        None \<Rightarrow> a
      | Some current \<Rightarrow> a\<lparr>l_slots := Map_set (l_slots a) slotId (deepClone current)\<rparr>)"

definition live_loadSlot :: "LiveAdapter \<Rightarrow> jsstring \<Rightarrow> (error + VisibleState) \<times> LiveAdapter" where
  "live_loadSlot a slotId =
     (case Map_get (l_slots a) slotId of
        None \<Rightarrow> (Inl (unknown_slot slotId), a)
      | Some snapshot \<Rightarrow> (Inr (deepClone snapshot), a\<lparr>l_current := Some (deepClone snapshot)\<rparr>))"

definition live_listSlots :: "LiveAdapter \<Rightarrow> jsstring list" where
  "live_listSlots a = deepClone DEFAULT_SLOTS"

subsection \<open>Histories of calls\<close>

text \<open>A call on an adapter; a call of the live adapter that fetches carries what
  \<open>fetchJson\<close> gave.\<close>

datatype mock_call =
    MGetVisibleState
  | MGetActions
  | MApplyAction jsstring
  | MSaveSlot jsstring
  | MLoadSlot jsstring
  | MListSlots

fun mock_call_effect :: "MockAdapter \<Rightarrow> mock_call \<Rightarrow> MockAdapter" where
  "mock_call_effect a MGetVisibleState = a"
| "mock_call_effect a MGetActions = a"
| "mock_call_effect a (MApplyAction action_id) = snd (mock_applyAction a action_id)"
| "mock_call_effect a (MSaveSlot slotId) = mock_saveSlot a slotId"
| "mock_call_effect a (MLoadSlot slotId) = snd (mock_loadSlot a slotId)"
| "mock_call_effect a MListSlots = a"

datatype live_call =
    LGetVisibleState "error + jsvalue"
  | LGetActions "error + jsvalue"
  | LApplyAction jsstring "error + jsvalue"
  | LSaveSlot jsstring
  | LLoadSlot jsstring
  | LListSlots

fun live_call_effect :: "platform \<Rightarrow> LiveAdapter \<Rightarrow> live_call \<Rightarrow> LiveAdapter" where
  "live_call_effect P a (LGetVisibleState fetched) = snd (live_getVisibleState P fetched a)"
| "live_call_effect P a (LGetActions fetched) = a"
| "live_call_effect P a (LApplyAction action_id fetched) = snd (live_applyAction P fetched a)"
| "live_call_effect P a (LSaveSlot slotId) = live_saveSlot a slotId"
| "live_call_effect P a (LLoadSlot slotId) = snd (live_loadSlot a slotId)"
| "live_call_effect P a LListSlots = a"

subsection \<open>Several mock adapters side by side\<close>








section \<open>What the specification says, in its own words\<close>

text \<open>A restricted token occurs in \<open>s\<close>, in any mix of upper and lower case, between word
  boundaries.\<close>

definition has_restricted_token :: "jsstring \<Rightarrow> bool" where
  "has_restricted_token s \<longleftrightarrow>
     (\<exists>pre mid post tok.
        s = pre @ mid @ post \<and> tok \<in> set RESTRICTED_TOKENS \<and>
        map canonicalize mid = map canonicalize tok \<and>
        (pre = [] \<or> \<not> isWordChar (last pre)) \<and>
        (post = [] \<or> \<not> isWordChar (hd post)))"

text \<open>A numeric percentage occurs in \<open>s\<close>: digits, possibly with a fraction, and the
  percent sign; the digits next to the sign are what matters.\<close>

definition has_percentage :: "jsstring \<Rightarrow> bool" where
  "has_percentage s \<longleftrightarrow>
     (\<exists>pre ds post. s = pre @ ds @ [37] @ post \<and> ds \<noteq> [] \<and> list_all isDigit ds)"

subsection \<open>Guards of the mock actions\<close>

definition ACTION_CATALOGUE :: "jsstring list" where
  "ACTION_CATALOGUE =
     map js [''remove_evidence'', ''delay_briefing'', ''reframe_priority'', ''seal_archive'']"

text \<open>The guard of the action fails, or the action is not in the catalogue.\<close>

definition guard_fails :: "VisibleState \<Rightarrow> jsstring \<Rightarrow> bool" where
  "guard_fails state actionId \<longleftrightarrow>
     (actionId = js ''remove_evidence'' \<and>
        \<not> list_ex (\<lambda>item. e_state item = js ''surfaced'') (evidence state)) \<or>
     (actionId = js ''delay_briefing'' \<and> public (pressure state) = Critical) \<or>
     (actionId = js ''seal_archive'' \<and>
        \<not> list_ex (\<lambda>item. e_state item = js ''suppressed'') (evidence state)) \<or>
     actionId \<notin> set ACTION_CATALOGUE"

text \<open>The fixed summary of each failure.\<close>

definition failure_summary :: "jsstring \<Rightarrow> jsstring" where
  "failure_summary actionId =
     (if actionId = js ''remove_evidence'' then js ''No surfaced evidence could be moved.''
      else if actionId = js ''delay_briefing''
        then js ''Briefing delay rejected under critical public pressure.''
      else if actionId = js ''seal_archive''
        then js ''No suppressed item available for archive sealing.''
      else js ''Action not recognized by mock adapter.'')"

subsection \<open>One adapter on its own\<close>



subsection \<open>A host for the examples\<close>

text \<open>A host that reads one ISO string as a date and no string as a number.\<close>

definition sample_host :: platform where
  "sample_host =
     \<lparr> StringToNumber = (\<lambda>s. NaN),
       NumberToString = (\<lambda>n. js ''NaN''),
       DateParse = (\<lambda>s. if s = js ''2026-02-01T20:40:00.000Z'' then Some 1769978400000 else None) \<rparr>"

section \<open>Pressure shifts\<close>

lemma indexOf_scale [simp]:
  "indexOf scale Low = 0" "indexOf scale Moderate = 1" "indexOf scale Elevated = 2"
  "indexOf scale High = 3" "indexOf scale Critical = 4"
  "indexOf scale Uncertain = -1" "indexOf scale Probable = -1" "indexOf scale Contradictory = -1"
  "indexOf scale Stable = -1" "indexOf scale Fragile = -1"
  by (simp_all add: indexOf_def scale_def)

lemma shift_Critical_up: "0 \<le> d \<Longrightarrow> shiftPressure Critical d = Critical"
  by (simp add: shiftPressure_def Let_def) (simp add: scale_def)

lemma shift_Low_down: "d \<le> 0 \<Longrightarrow> shiftPressure Low d = Low"
  by (simp add: shiftPressure_def Let_def) (simp add: scale_def max_def)

lemma shift_off_scale: "p \<notin> set scale \<Longrightarrow> shiftPressure p d = Uncertain"
  by (cases p) (simp_all add: shiftPressure_def Let_def, simp_all add: scale_def)

lemma funpow_fixed: "f x = x \<Longrightarrow> (f ^^ n) x = x"
  by (induction n) simp_all

text \<open>
  C7. Shifting up from \<open>critical\<close>, any number of times, stays at \<open>critical\<close>; shifting
  down from \<open>low\<close>, any number of times, stays at \<open>low\<close>; a label outside the ordered
  scale of five terms is shifted to \<open>uncertain\<close> by every delta.
\<close>

theorem shiftPressure_clamps:
  "0 \<le> up \<Longrightarrow> down \<le> 0 \<Longrightarrow>
     ((\<lambda>p. shiftPressure p up) ^^ n) Critical = Critical \<and>
     ((\<lambda>p. shiftPressure p down) ^^ n) Low = Low \<and>
     (p \<notin> set scale \<longrightarrow> shiftPressure p delta = Uncertain)"
  by (simp add: funpow_fixed shift_Critical_up shift_Low_down shift_off_scale)

theorem shiftPressure_clamps_witness:
  "(0::int) \<le> 1 \<and> (-1::int) \<le> 0 \<and> Uncertain \<notin> set scale \<and>
   ((\<lambda>p. shiftPressure p 1) ^^ 3) Critical = Critical \<and>
   ((\<lambda>p. shiftPressure p (-1)) ^^ 3) Low = Low \<and>
   shiftPressure Uncertain 1 = Uncertain \<and> shiftPressure Uncertain (-1) = Uncertain"
  using shiftPressure_clamps [of 1 "-1" 3 Uncertain 1] shiftPressure_clamps [of 1 "-1" 3 Uncertain "-1"]
  by (simp add: scale_def)

section \<open>The mock actions\<close>

lemma findIndex_ge: "- 1 \<le> findIndex p xs"
  by (induction xs) (auto simp: Let_def)

lemma findIndex_neg_iff: "findIndex p xs < 0 \<longleftrightarrow> \<not> list_ex p xs"
  using findIndex_ge [of p] by (induction xs) (auto simp: Let_def)


lemma action_ids_distinct:
  "js ''remove_evidence'' \<noteq> js ''delay_briefing''"
  "js ''remove_evidence'' \<noteq> js ''seal_archive''"
  "js ''delay_briefing'' \<noteq> js ''seal_archive''"
  "js ''delay_briefing'' \<noteq> js ''remove_evidence''"
  "js ''seal_archive'' \<noteq> js ''remove_evidence''"
  "js ''seal_archive'' \<noteq> js ''delay_briefing''"
  by (simp_all add: js_def)

lemma applyMockAction_guard_fails:
  assumes "guard_fails state actionId"
  shows "applyMockAction state actionId =
           Inr \<lparr> visible_state = state,
                 action_result = \<lparr> success = False, summary = failure_summary actionId \<rparr> \<rparr>"
proof -
  consider
      (rm) "actionId = js ''remove_evidence''"
           "\<not> list_ex (\<lambda>item. e_state item = js ''surfaced'') (evidence state)"
    | (dl) "actionId = js ''delay_briefing''" "public (pressure state) = Critical"
    | (sl) "actionId = js ''seal_archive''"
           "\<not> list_ex (\<lambda>item. e_state item = js ''suppressed'') (evidence state)"
    | (un) "actionId \<notin> set ACTION_CATALOGUE"
    using assms unfolding guard_fails_def by blast
  then show ?thesis
  proof cases
    case rm
    then show ?thesis
      by (simp add: applyMockAction_def deepClone_def failed_def failure_summary_def
          findIndex_neg_iff)
  next
    case dl
    then show ?thesis
      by (simp add: applyMockAction_def deepClone_def failed_def failure_summary_def
          action_ids_distinct)
  next
    case sl
    then show ?thesis
      by (simp add: applyMockAction_def deepClone_def failed_def failure_summary_def
          findIndex_neg_iff action_ids_distinct) (simp add: js_def)
  next
    case un
    then have "actionId \<noteq> js ''remove_evidence''" "actionId \<noteq> js ''delay_briefing''"
      "actionId \<noteq> js ''reframe_priority''" "actionId \<noteq> js ''seal_archive''"
      by (auto simp: ACTION_CATALOGUE_def)
    then show ?thesis
      by (simp add: applyMockAction_def deepClone_def failed_def failure_summary_def)
  qed
qed

text \<open>
  C5. When the guard of an action fails (\<open>remove_evidence\<close> with no surfaced evidence,
  \<open>delay_briefing\<close> under critical public pressure, \<open>seal_archive\<close> with no
  suppressed evidence) or the action id is not in the catalogue, \<open>applyMockAction\<close> and
  the adapter's \<open>applyAction\<close> return the input state itself, with \<open>success = false\<close>
  and the fixed summary, and the adapter keeps its state.
\<close>

theorem failed_guard_leaves_state:
  "guard_fails (m_state a) actionId \<Longrightarrow>
     applyMockAction (m_state a) actionId =
       Inr \<lparr> visible_state = m_state a,
             action_result = \<lparr> success = False, summary = failure_summary actionId \<rparr> \<rparr> \<and>
     mock_applyAction a actionId =
       (Inr \<lparr> visible_state = m_state a,
              action_result = \<lparr> success = False, summary = failure_summary actionId \<rparr> \<rparr>, a)"
  by (simp add: applyMockAction_guard_fails mock_applyAction_def deepClone_def)

theorem failed_guard_leaves_state_witness:
  "guard_fails (m_state (createMockAdapter 42)) (js ''seal_archive'') \<and>
   mock_applyAction (createMockAdapter 42) (js ''seal_archive'') =
     (Inr \<lparr> visible_state = m_state (createMockAdapter 42),
            action_result = \<lparr> success = False,
              summary = js ''No suppressed item available for archive sealing.'' \<rparr> \<rparr>,
      createMockAdapter 42)"
proof -
  have g: "guard_fails (m_state (createMockAdapter 42)) (js ''seal_archive'')"
    by code_simp
  have f: "failure_summary (js ''seal_archive'') = js ''No suppressed item available for archive sealing.''"
    by code_simp
  show ?thesis
    using g failed_guard_leaves_state [OF g] unfolding f by simp
qed





section \<open>Determinism of the mock adapter\<close>






section \<open>Slots\<close>

lemma Map_get_Map_set:
  "Map_get (Map_set kvs k v) k' = (if k' = k then Some v else Map_get kvs k')"
  by (induction kvs k v rule: Map_set.induct) (auto simp: Map_get_def)

lemma mock_call_keeps_unknown:
  "Map_get (m_slots a) slotId = None \<Longrightarrow> c \<noteq> MSaveSlot slotId \<Longrightarrow>
     Map_get (m_slots (mock_call_effect a c)) slotId = None"
  by (cases c)
     (auto simp: mock_applyAction_def mock_saveSlot_def mock_loadSlot_def Map_get_Map_set
           split: sum.splits option.splits)

lemma mock_calls_keep_unknown:
  "Map_get (m_slots a) slotId = None \<Longrightarrow> MSaveSlot slotId \<notin> set calls \<Longrightarrow>
     Map_get (m_slots (foldl mock_call_effect a calls)) slotId = None"
proof (induction calls arbitrary: a)
  case Nil
  then show ?case by simp
next
  case (Cons c calls)
  from Cons.prems have "c \<noteq> MSaveSlot slotId" "MSaveSlot slotId \<notin> set calls" by auto
  with Cons.prems(1) show ?case
    by (simp add: Cons.IH mock_call_keeps_unknown)
qed

lemma live_call_keeps_unknown:
  "Map_get (l_slots a) slotId = None \<Longrightarrow> c \<noteq> LSaveSlot slotId \<Longrightarrow>
     Map_get (l_slots (live_call_effect P a c)) slotId = None"
  by (cases c)
     (auto simp: live_getVisibleState_def live_applyAction_def live_saveSlot_def live_loadSlot_def
           Map_get_Map_set Let_def
           split: sum.splits option.splits)

lemma live_calls_keep_unknown:
  "Map_get (l_slots a) slotId = None \<Longrightarrow> LSaveSlot slotId \<notin> set calls \<Longrightarrow>
     Map_get (l_slots (foldl (live_call_effect P) a calls)) slotId = None"
proof (induction calls arbitrary: a)
  case Nil
  then show ?case by simp
next
  case (Cons c calls)
  from Cons.prems have "c \<noteq> LSaveSlot slotId" "LSaveSlot slotId \<notin> set calls" by auto
  with Cons.prems(1) show ?case
    by (simp add: Cons.IH live_call_keeps_unknown)
qed

text \<open>
  C9. After any history of calls that never saved under a slot name, \<open>loadSlot\<close> on
  that name raises the \<open>EngineAdapterError\<close> of an unknown slot, on the mock adapter and on
  the live adapter, and leaves the adapter as it was.
\<close>

theorem loadSlot_unknown:
  assumes "MSaveSlot slotId \<notin> set mcalls" and "LSaveSlot slotId \<notin> set lcalls"
  shows "mock_loadSlot (foldl mock_call_effect (createMockAdapter seed) mcalls) slotId =
           (Inl (EngineAdapterError
                   (js ''No saved data for '' @ [34] @ slotId @ [34] @ js ''. Save a page first.'')),
            foldl mock_call_effect (createMockAdapter seed) mcalls) \<and>
         live_loadSlot (foldl (live_call_effect P) createLiveAdapter lcalls) slotId =
           (Inl (EngineAdapterError
                   (js ''No saved data for '' @ [34] @ slotId @ [34] @ js ''. Save a page first.'')),
            foldl (live_call_effect P) createLiveAdapter lcalls)"
proof -
  have m: "Map_get (m_slots (foldl mock_call_effect (createMockAdapter seed) mcalls)) slotId = None"
    using assms(1) by (intro mock_calls_keep_unknown) (simp_all add: createMockAdapter_def Map_get_def)
  have l: "Map_get (l_slots (foldl (live_call_effect P) createLiveAdapter lcalls)) slotId = None"
    using assms(2) by (intro live_calls_keep_unknown) (simp_all add: createLiveAdapter_def Map_get_def)
  show ?thesis
    by (simp add: mock_loadSlot_def live_loadSlot_def m l unknown_slot_def)
qed

theorem loadSlot_unknown_witness:
  "MSaveSlot (js ''page-z'') \<notin> set [MSaveSlot (js ''page-a''), MApplyAction (js ''remove_evidence''), MLoadSlot (js ''page-a'')] \<and>
   LSaveSlot (js ''page-z'') \<notin> set [LGetVisibleState (Inr (JObj [])), LSaveSlot (js ''page-a'')] \<and>
   mock_loadSlot (foldl mock_call_effect (createMockAdapter 42)
        [MSaveSlot (js ''page-a''), MApplyAction (js ''remove_evidence''), MLoadSlot (js ''page-a'')]) (js ''page-z'') =
     (Inl (EngineAdapterError
             (js ''No saved data for '' @ [34] @ js ''page-z'' @ [34] @ js ''. Save a page first.'')),
      foldl mock_call_effect (createMockAdapter 42)
        [MSaveSlot (js ''page-a''), MApplyAction (js ''remove_evidence''), MLoadSlot (js ''page-a'')]) \<and>
   live_loadSlot (foldl (live_call_effect sample_host) createLiveAdapter
        [LGetVisibleState (Inr (JObj [])), LSaveSlot (js ''page-a'')]) (js ''page-z'') =
     (Inl (EngineAdapterError
             (js ''No saved data for '' @ [34] @ js ''page-z'' @ [34] @ js ''. Save a page first.'')),
      foldl (live_call_effect sample_host) createLiveAdapter
        [LGetVisibleState (Inr (JObj [])), LSaveSlot (js ''page-a'')])"
proof -
  have m: "MSaveSlot (js ''page-z'') \<notin> set [MSaveSlot (js ''page-a''), MApplyAction (js ''remove_evidence''), MLoadSlot (js ''page-a'')]"
    by (simp add: js_def)
  have l: "LSaveSlot (js ''page-z'') \<notin> set [LGetVisibleState (Inr (JObj [])), LSaveSlot (js ''page-a'')]"
    by (simp add: js_def)
  show ?thesis
    using m l loadSlot_unknown [OF m l, of 42 sample_host] by blast
qed

lemma Map_keys_Map_set: "Map_keys (Map_set kvs k v) = Set_add (Map_keys kvs) k"
  by (induction kvs k v rule: Map_set.induct) (auto simp: Map_keys_def Set_add_def)

lemma set_Set_add: "set (Set_add xs x) = insert x (set xs)"
  by (auto simp: Set_add_def)

lemma set_foldl_Set_add: "set (foldl Set_add acc xs) = set acc \<union> set xs"
  by (induction xs arbitrary: acc) (auto simp: set_Set_add)

lemma distinct_Set_add: "distinct xs \<Longrightarrow> distinct (Set_add xs x)"
  by (auto simp: Set_add_def)

lemma distinct_foldl_Set_add: "distinct acc \<Longrightarrow> distinct (foldl Set_add acc xs)"
  by (induction xs arbitrary: acc) (auto simp: distinct_Set_add)

lemma foldl_Set_add_Set_add:
  "foldl Set_add acc (Set_add ys x) = Set_add (foldl Set_add acc ys) x"
  by (auto simp: Set_add_def set_foldl_Set_add)

lemma foldl_Set_add_foldl:
  "foldl Set_add acc (foldl Set_add ks names) = foldl Set_add (foldl Set_add acc ks) names"
proof (induction names rule: rev_induct)
  case Nil
  then show ?case by simp
next
  case (snoc x names)
  then show ?case by (simp add: foldl_Set_add_Set_add)
qed

lemma keys_after_saves:
  "Map_keys (m_slots (foldl mock_saveSlot a names)) = foldl Set_add (Map_keys (m_slots a)) names"
  by (induction names arbitrary: a) (simp_all add: mock_saveSlot_def Map_keys_Map_set)

text \<open>
  C8 (amended). On the mock adapter, after \<open>saveSlot\<close> calls with the names \<open>names\<close>,
  \<open>listSlots\<close> returns the default slot names, then the names saved before, then
  \<open>names\<close>, each name once at its first occurrence; on a fresh adapter these are the
  three default names followed by the new names of \<open>names\<close>.
\<close>

theorem mock_listSlots_after_saves:
  "mock_listSlots (foldl mock_saveSlot a names) =
     Array_from_Set (DEFAULT_SLOTS @ Map_keys (m_slots a) @ names) \<and>
   mock_listSlots (foldl mock_saveSlot (createMockAdapter seed) names) =
     Array_from_Set (DEFAULT_SLOTS @ names) \<and>
   set (mock_listSlots (foldl mock_saveSlot (createMockAdapter seed) names)) =
     set DEFAULT_SLOTS \<union> set names \<and>
   distinct (mock_listSlots (foldl mock_saveSlot (createMockAdapter seed) names)) \<and>
   take 3 (mock_listSlots (foldl mock_saveSlot (createMockAdapter seed) names)) = DEFAULT_SLOTS"
proof -
  have gen: "mock_listSlots (foldl mock_saveSlot b names) =
               Array_from_Set (DEFAULT_SLOTS @ Map_keys (m_slots b) @ names)" for b
    by (simp add: mock_listSlots_def keys_after_saves Array_from_Set_def foldl_Set_add_foldl)
  have fresh: "Map_keys (m_slots (createMockAdapter seed)) = []"
    by (simp add: createMockAdapter_def Map_keys_def)
  have d3: "foldl Set_add [] DEFAULT_SLOTS = DEFAULT_SLOTS"
    by (simp add: DEFAULT_SLOTS_def Set_add_def js_def)
  have pre: "\<exists>rest. foldl Set_add acc xs = acc @ rest" for acc xs :: "jsstring list"
  proof (induction xs arbitrary: acc)
    case Nil
    then show ?case by simp
  next
    case (Cons x xs)
    obtain rest where "foldl Set_add (Set_add acc x) xs = Set_add acc x @ rest"
      using Cons.IH by blast
    moreover have "Set_add acc x = acc \<or> Set_add acc x = acc @ [x]"
      by (simp add: Set_add_def)
    ultimately show ?case by auto
  qed
  obtain rest where rest: "foldl Set_add DEFAULT_SLOTS names = DEFAULT_SLOTS @ rest"
    using pre by blast
  have fr: "mock_listSlots (foldl mock_saveSlot (createMockAdapter seed) names) =
              foldl Set_add DEFAULT_SLOTS names"
    by (simp add: gen fresh Array_from_Set_def d3)
  have l3: "length DEFAULT_SLOTS = 3" by (simp add: DEFAULT_SLOTS_def)
  have dd: "distinct DEFAULT_SLOTS" by (simp add: DEFAULT_SLOTS_def js_def)
  show ?thesis
  proof (intro conjI)
    show "mock_listSlots (foldl mock_saveSlot a names) =
            Array_from_Set (DEFAULT_SLOTS @ Map_keys (m_slots a) @ names)"
      by (rule gen)
    show "mock_listSlots (foldl mock_saveSlot (createMockAdapter seed) names) =
            Array_from_Set (DEFAULT_SLOTS @ names)"
      by (simp add: gen fresh)
    show "set (mock_listSlots (foldl mock_saveSlot (createMockAdapter seed) names)) =
            set DEFAULT_SLOTS \<union> set names"
      by (simp add: fr set_foldl_Set_add)
    show "distinct (mock_listSlots (foldl mock_saveSlot (createMockAdapter seed) names))"
      by (simp add: fr distinct_foldl_Set_add dd)
    show "take 3 (mock_listSlots (foldl mock_saveSlot (createMockAdapter seed) names)) = DEFAULT_SLOTS"
      unfolding fr rest using l3 by simp
  qed
qed

section \<open>Examples for the mock actions and the slots\<close>



theorem live_listSlots_misses_saved:
  "Map_get (l_slots (live_saveSlot (snd (live_getVisibleState sample_host (Inr (JObj [])) createLiveAdapter))
                       (js ''page-z''))) (js ''page-z'') \<noteq> None \<and>
   live_listSlots (live_saveSlot (snd (live_getVisibleState sample_host (Inr (JObj [])) createLiveAdapter))
                     (js ''page-z'')) = [js ''page-a'', js ''page-b'', js ''page-c''] \<and>
   live_listSlots (live_saveSlot createLiveAdapter (js ''page-z'')) =
     [js ''page-a'', js ''page-b'', js ''page-c''] \<and>
   js ''page-z'' \<notin> set [js ''page-a'', js ''page-b'', js ''page-c'']"
  by (simp add: live_listSlots_def deepClone_def DEFAULT_SLOTS_def live_saveSlot_def
      live_getVisibleState_def sanitizeVisibleState_def createLiveAdapter_def Map_get_def Let_def)
     (simp add: js_def)

theorem mock_listSlots_after_saves_witness:
  "mock_listSlots (foldl mock_saveSlot (createMockAdapter 42) [js ''page-z'', js ''page-b'', js ''page-z'']) =
     [js ''page-a'', js ''page-b'', js ''page-c'', js ''page-z'']"
proof -
  have a: "Array_from_Set (DEFAULT_SLOTS @ [js ''page-z'', js ''page-b'', js ''page-z'']) =
          [js ''page-a'', js ''page-b'', js ''page-c'', js ''page-z'']"
    by code_simp
  have "mock_listSlots (foldl mock_saveSlot (createMockAdapter 42) [js ''page-z'', js ''page-b'', js ''page-z'']) =
          Array_from_Set (DEFAULT_SLOTS @ [js ''page-z'', js ''page-b'', js ''page-z''])"
    using mock_listSlots_after_saves [of "createMockAdapter 42" "[js ''page-z'', js ''page-b'', js ''page-z'']" 42]
    by blast
  then show ?thesis unfolding a .
qed

section \<open>The sanitized timeline\<close>

lemma length_map_index [simp]: "length (map_index f xs) = length xs"
  by (simp add: map_index_def)




end
